theory Spec2Isabelle
  imports Complex_Main
begin

section \<open>Python primitives used by the pipeline\<close>

text \<open>
  Texts are modelled as \<open>string\<close> (lists of 8-bit characters) and read as ASCII: the
  character classes below are the ASCII restrictions of Python's \<open>str.isupper\<close>,
  \<open>str.isalpha\<close>, \<open>str.lower\<close>, \<open>str.strip\<close> and of the regex class \<open>\w\<close>.
  Python floats are modelled as \<open>real\<close>: rounding error of the binary representation is
  not part of the model.
\<close>

datatype error = KeyError string | ZeroDivisionError | ValueError

definition is_upper :: "char \<Rightarrow> bool" where
  "is_upper c = (65 \<le> (of_char c :: nat) \<and> (of_char c :: nat) \<le> 90)"

definition is_lower :: "char \<Rightarrow> bool" where
  "is_lower c = (97 \<le> (of_char c :: nat) \<and> (of_char c :: nat) \<le> 122)"

definition is_alpha :: "char \<Rightarrow> bool" where
  "is_alpha c = (is_upper c \<or> is_lower c)"

definition is_digit :: "char \<Rightarrow> bool" where
  "is_digit c = (48 \<le> (of_char c :: nat) \<and> (of_char c :: nat) \<le> 57)"

text \<open>The regex class \<open>\w\<close>: letters, digits and the underscore.\<close>

definition is_word :: "char \<Rightarrow> bool" where
  "is_word c = (is_alpha c \<or> is_digit c \<or> (of_char c :: nat) = 95)"

text \<open>\<open>str.isspace\<close> on ASCII: tab, line feed, VT, FF, CR, the separators 28..31, space.\<close>

definition is_space_char :: "char \<Rightarrow> bool" where
  "is_space_char c =
     ((9 \<le> (of_char c :: nat) \<and> (of_char c :: nat) \<le> 13)
      \<or> (28 \<le> (of_char c :: nat) \<and> (of_char c :: nat) \<le> 32))"

definition lower_char :: "char \<Rightarrow> char" where
  "lower_char c = (if is_upper c then char_of ((of_char c :: nat) + 32) else c)"

definition upper_char :: "char \<Rightarrow> char" where
  "upper_char c = (if is_lower c then char_of ((of_char c :: nat) - 32) else c)"

definition lower :: "string \<Rightarrow> string" where
  "lower s = map lower_char s"

definition strip :: "string \<Rightarrow> string" where
  "strip s = rev (dropWhile is_space_char (rev (dropWhile is_space_char s)))"

text \<open>\<open>text.count(c)\<close> for a one-character needle.\<close>

definition count_char :: "char \<Rightarrow> string \<Rightarrow> nat" where
  "count_char c s = length (filter (\<lambda>d. d = c) s)"

text \<open>
  Python's \<open>round(x, ndigits)\<close>: the nearest multiple of \<open>10^-ndigits\<close>, a tie going to
  the even one.
\<close>

definition round_half_even :: "real \<Rightarrow> int" where
  "round_half_even y =
     (let f = \<lfloor>y\<rfloor>; d = y - of_int f
      in if d < 1 / 2 then f else if 1 / 2 < d then f + 1
         else if even f then f else f + 1)"

definition py_round :: "real \<Rightarrow> nat \<Rightarrow> real" where
  "py_round x ndigits = of_int (round_half_even (x * 10 ^ ndigits)) / 10 ^ ndigits"

section \<open>Regular expressions\<close>

text \<open>
  The fragment of Python's \<open>re\<close> syntax that the pattern tables of the repository use:
  literal characters, a character range, \<open>\b\<close>, sequencing, alternation, \<open>?\<close> and the
  bounded repetition \<open>{n,}\<close> of a single character or range.
\<close>

datatype atom = Chr char | Range char char

datatype regex =
    Eps
  | Atom atom
  | Rep nat atom
  | WordB
  | Seq regex regex
  | Alt regex regex
  | Opt regex

text \<open>
  \<open>atom_matches ic a c\<close>: does the atom accept the character; \<open>ic\<close> is the flag
  \<open>re.IGNORECASE\<close>, under which a character is accepted when either of its cases is.
\<close>

fun atom_accepts :: "atom \<Rightarrow> char \<Rightarrow> bool" where
  "atom_accepts (Chr l) c = (c = l)"
| "atom_accepts (Range a b) c =
     ((of_char a :: nat) \<le> of_char c \<and> (of_char c :: nat) \<le> of_char b)"

definition atom_matches :: "bool \<Rightarrow> atom \<Rightarrow> char \<Rightarrow> bool" where
  "atom_matches ic a c =
     (if ic then atom_accepts a c \<or> atom_accepts a (lower_char c) \<or> atom_accepts a (upper_char c)
      else atom_accepts a c)"

text \<open>\<open>\b\<close> at position \<open>i\<close>: exactly one of the characters around \<open>i\<close> is a word character.\<close>

definition word_boundary :: "string \<Rightarrow> nat \<Rightarrow> bool" where
  "word_boundary s i =
     ((0 < i \<and> i \<le> length s \<and> is_word (s ! (i - 1))) \<noteq> (i < length s \<and> is_word (s ! i)))"

text \<open>
  \<open>ends ic s r i\<close>: the positions at which a match of \<open>r\<close> that starts at position
  \<open>i\<close> of \<open>s\<close> can end, in the order a backtracking matcher tries them.
\<close>

fun ends :: "bool \<Rightarrow> string \<Rightarrow> regex \<Rightarrow> nat \<Rightarrow> nat list" where
  "ends ic s Eps i = [i]"
| "ends ic s (Atom a) i = (if i < length s \<and> atom_matches ic a (s ! i) then [Suc i] else [])"
| "ends ic s (Rep n a) i =
     (let k = length (takeWhile (atom_matches ic a) (drop i s))
      in map (\<lambda>m. i + m) (rev [n..<Suc k]))"
| "ends ic s WordB i = (if word_boundary s i then [i] else [])"
| "ends ic s (Seq r1 r2) i = concat (map (ends ic s r2) (ends ic s r1 i))"
| "ends ic s (Alt r1 r2) i = ends ic s r1 i @ ends ic s r2 i"
| "ends ic s (Opt r) i = ends ic s r i @ [i]"

text \<open>\<open>re.search(pattern, text, flags)\<close> as a truth value: some start position has a match.\<close>

definition re_search :: "bool \<Rightarrow> regex \<Rightarrow> string \<Rightarrow> bool" where
  "re_search ic r s = list_ex (\<lambda>i. ends ic s r i \<noteq> []) [0..<Suc (length s)]"

text \<open>Builders for writing the pattern tables down as they are in the source.\<close>

fun lit :: "string \<Rightarrow> regex" where
  "lit [] = Eps"
| "lit [c] = Atom (Chr c)"
| "lit (c # cs) = Seq (Atom (Chr c)) (lit cs)"

fun cat :: "regex list \<Rightarrow> regex" where
  "cat [] = Eps"
| "cat [r] = r"
| "cat (r # rs) = Seq r (cat rs)"

fun alts :: "regex list \<Rightarrow> regex" where
  "alts [] = Eps"
| "alts [r] = r"
| "alts (r # rs) = Alt r (alts rs)"

definition opt :: "char \<Rightarrow> regex" where
  "opt c = Opt (Atom (Chr c))"

text \<open>\<open>\b( ... | ... )\b\<close>\<close>

definition words :: "regex list \<Rightarrow> regex" where
  "words rs = Seq WordB (Seq (alts rs) WordB)"

definition apostrophe :: char where
  "apostrophe = CHR 0x27"

section \<open>Event detection (information_extraction.py)\<close>

datatype event_type = Goal | Foul | Yellow_card | Red_card | Offside | Substitution | Injury

definition GOAL_TIME_WINDOW :: real where
  "GOAL_TIME_WINDOW = 15"

definition EVENT_TIME_WINDOW :: real where
  "EVENT_TIME_WINDOW = 10"

text \<open>
  \<open>EVENT_PATTERNS\<close>, a dict literal: its items come in the order they are written.
\<close>

definition goal_patterns :: "regex list" where
  "goal_patterns =
    [words [lit ''he scores'', lit ''scores!'', lit ''scored!'',
            cat [lit ''it'', opt apostrophe, lit ''s a goal''],
            lit ''what a goal'', lit ''brilliant goal''],
     words [cat [lit ''put'', opt CHR ''s'', lit '' it in''], lit ''into the net'',
            lit ''back of the net'', cat [lit ''find'', opt CHR ''s'', lit '' the net''],
            lit ''roof of the net''],
     words [lit ''first goal'', lit ''second goal'', lit ''third goal'', lit ''opening goal'',
            cat [lit ''open'', opt CHR ''s'', lit '' the scoring'']],
     words [lit ''brilliant finish'', lit ''lovely finish'', lit ''clinical finish'',
            lit ''tucks it away''],
     words [cat [lit ''break'', opt CHR ''s'', lit '' the deadlock''], lit ''doubles the lead'',
            cat [lit ''seal'', opt CHR ''s'', lit '' the victory'']],
     words [lit ''smashed in the rebound'', cat [lit ''and it'', lit [apostrophe], lit ''s in'']],
     words [lit ''one null'', lit ''two null'', lit ''three null'', lit ''four null'',
            lit ''five null''],
     words [lit ''one one'', lit ''two one'', lit ''three one'', lit ''two two'',
            lit ''three two''],
     words [lit ''1-0'', lit ''2-0'', lit ''3-0'', lit ''4-0'', lit ''1-1'', lit ''2-1'',
            lit ''3-1'', lit ''2-2'', lit ''3-2'']]"

definition foul_patterns :: "regex list" where
  "foul_patterns =
    [words [lit ''foul'', cat [lit ''foul'', opt CHR ''s''], lit ''fouled'', lit ''tackle'',
            lit ''tackled'', lit ''brought down'', lit ''pulled back''],
     words [cat [lit ''trip'', opt CHR ''s''], lit ''tripped'', lit ''push'', lit ''pushed'',
            lit ''shoved'']]"

definition yellow_card_patterns :: "regex list" where
  "yellow_card_patterns =
    [words [lit ''yellow card'', lit ''booked'', lit ''booking'', lit ''caution'',
            lit ''cautioned''],
     words [lit ''shown yellow'', cat [lit ''get'', opt CHR ''s'', lit '' a yellow''],
            cat [lit ''receive'', opt CHR ''s'', lit '' a yellow'']]]"

definition red_card_patterns :: "regex list" where
  "red_card_patterns =
    [words [lit ''red card'', lit ''sent off'', lit ''sending off'', lit ''dismissed'',
            lit ''ejected''],
     words [lit ''straight red'', lit ''second yellow'', lit ''off he goes'']]"

definition offside_patterns :: "regex list" where
  "offside_patterns =
    [words [lit ''offside'', cat [lit ''off'', opt CHR ''-'', lit ''side''], lit ''flag is up'',
            cat [lit ''linesman'', opt apostrophe, lit ''s flag'']]]"

definition substitution_patterns :: "regex list" where
  "substitution_patterns =
    [words [lit ''substitution'', lit ''sub'', lit ''replaced'', lit ''replacing'',
            cat [lit ''goe'', opt CHR ''s'', lit '' off'']],
     words [cat [lit ''bring'', opt CHR ''s'', lit '' on''],
            cat [lit ''take'', opt CHR ''s'', lit '' off'']]]"

definition injury_patterns :: "regex list" where
  "injury_patterns =
    [words [lit ''injury'', lit ''hurt'', lit ''treatment'', lit ''stretcher'', lit ''medical''],
     words [lit ''holding'', lit ''injured'', lit ''limping'', lit ''medic'']]"

definition EVENT_PATTERNS :: "(event_type \<times> regex list) list" where
  "EVENT_PATTERNS =
    [(Goal, goal_patterns), (Foul, foul_patterns), (Yellow_card, yellow_card_patterns),
     (Red_card, red_card_patterns), (Offside, offside_patterns),
     (Substitution, substitution_patterns), (Injury, injury_patterns)]"

text \<open>
  A transcript segment is a dict; a key that may be absent is an optional field.
\<close>

record segment =
  seg_start :: "real option"
  seg_end :: "real option"
  seg_text :: "string option"

record event =
  ev_type :: event_type
  ev_text :: string
  ev_time :: real

text \<open>
  The inner loop of \<open>detect_events_with_timestamps\<close>: the items of the table in order,
  \<open>any(re.search(p, text_lower) for p in patterns)\<close>, and \<open>break\<close> at the first hit.
\<close>

fun first_match :: "(event_type \<times> regex list) list \<Rightarrow> string \<Rightarrow> event_type option" where
  "first_match [] text_lower = None"
| "first_match ((event_type, patterns) # rest) text_lower =
     (if list_ex (\<lambda>p. re_search False p text_lower) patterns then Some event_type
      else first_match rest text_lower)"

text \<open>The events one segment appends; \<open>segment["text"]\<close> and \<open>segment["start"]\<close> raise
  on a missing key.\<close>

definition segment_events :: "segment \<Rightarrow> error + event list" where
  "segment_events seg =
     (case seg_text seg of
        None \<Rightarrow> Inl (KeyError ''text'')
      | Some text \<Rightarrow>
          (case seg_start seg of
             None \<Rightarrow> Inl (KeyError ''start'')
           | Some start_time \<Rightarrow>
               Inr (case first_match EVENT_PATTERNS (lower text) of
                      None \<Rightarrow> []
                    | Some ty \<Rightarrow> [\<lparr>ev_type = ty, ev_text = strip text, ev_time = start_time\<rparr>])))"

text \<open>The first loop: the candidate events of all segments, in segment order.\<close>

fun detect_candidates :: "event list \<Rightarrow> segment list \<Rightarrow> error + event list" where
  "detect_candidates events [] = Inr events"
| "detect_candidates events (seg # rest) =
     (case segment_events seg of
        Inl e \<Rightarrow> Inl e
      | Inr new \<Rightarrow> detect_candidates (events @ new) rest)"

text \<open>The second loop, with the list \<open>deduplicated\<close> as its state.\<close>

fun dedup_loop :: "event list \<Rightarrow> event list \<Rightarrow> event list" where
  "dedup_loop deduplicated [] = deduplicated"
| "dedup_loop deduplicated (event # rest) =
     (let window = (if ev_type event = Goal then GOAL_TIME_WINDOW else EVENT_TIME_WINDOW)
      in if \<not> list_ex (\<lambda>e. ev_type e = ev_type event \<and> \<bar>ev_time e - ev_time event\<bar> < window)
                 deduplicated
         then dedup_loop (deduplicated @ [event]) rest
         else dedup_loop deduplicated rest)"

definition deduplicate :: "event list \<Rightarrow> event list" where
  "deduplicate events = dedup_loop [] events"

definition detect_events_with_timestamps :: "segment list \<Rightarrow> error + event list" where
  "detect_events_with_timestamps segments =
     (case detect_candidates [] segments of
        Inl e \<Rightarrow> Inl e
      | Inr events \<Rightarrow> Inr (deduplicate events))"

section \<open>Intensity scoring (sentiment_analyzer.py)\<close>

text \<open>
  The spaCy model is the module global \<open>nlp\<close>: \<open>None\<close> when loading failed, otherwise
  a function from a text to its annotated tokens. A token carries what the code reads
  of it: \<open>lemma_\<close>, \<open>pos_\<close>, \<open>is_punct\<close> and \<open>is_space\<close>.
\<close>

record token =
  tok_lemma :: string
  tok_pos :: string
  tok_is_punct :: bool
  tok_is_space :: bool

type_synonym nlp = "string \<Rightarrow> token list"

definition EXCITEMENT_LEMMAS :: "string set" where
  "EXCITEMENT_LEMMAS =
    {''goal'', ''score'', ''brilliant'', ''amazing'', ''incredible'', ''fantastic'',
     ''unbelievable'', ''wow'', ''beautiful'', ''stunning'', ''magnificent'',
     ''sensational'', ''spectacular'', ''wonderful'', ''superb'', ''perfect'',
     ''genius'', ''magic'', ''masterclass'', ''clinical'', ''unstoppable''}"

definition TENSION_LEMMAS :: "string set" where
  "TENSION_LEMMAS =
    {''foul'', ''card'', ''injury'', ''hurt'', ''miss'', ''save'', ''block'',
     ''dangerous'', ''close'', ''almost'', ''nearly'', ''offside'', ''controversial''}"

definition INTENSIFIERS :: "string set" where
  "INTENSIFIERS =
    {''very'', ''so'', ''really'', ''absolutely'', ''completely'', ''totally'',
     ''incredibly'', ''extremely'', ''truly'', ''just''}"

definition NEGATIONS :: "string set" where
  "NEGATIONS = {''not'', ''no'', ''never'', ''none'', ''nothing'', ''neither'', ''nobody''}"

text \<open>\<open>INTENSITY_PATTERNS["high"]\<close>, \<open>["medium"]\<close> and \<open>["low"]\<close>.\<close>

definition caps_pattern :: regex where
  "caps_pattern = Rep 3 (Range CHR ''A'' CHR ''Z'')"

definition shout_pattern :: regex where
  "shout_pattern = words [lit ''GOAL'', lit ''YES'', lit ''WOW'', lit ''OH'']"

definition high_patterns :: "regex list" where
  "high_patterns =
    [Rep 2 (Chr CHR ''!''),
     caps_pattern,
     shout_pattern,
     Seq (lit ''what a '')
         (alts [lit ''goal'', lit ''strike'', lit ''save'', lit ''finish'', lit ''pass'',
                lit ''hit'']),
     alts [lit ''brilliant'', lit ''amazing'', lit ''incredible'', lit ''unbelievable'',
           lit ''sensational'']]"

definition medium_patterns :: "regex list" where
  "medium_patterns =
    [Atom (Chr CHR ''!''),
     alts [lit ''good'', lit ''nice'', lit ''well done'', lit ''great''],
     alts [lit ''chance'', lit ''shot'', lit ''opportunity'', lit ''attack'']]"

definition low_patterns :: "regex list" where
  "low_patterns =
    [alts [lit ''pass'', lit ''possession'', lit ''back'', lit ''sideways''],
     alts [lit ''waiting'', lit ''looking'', lit ''patient'', lit ''calm'']]"

text \<open>
  The dict that \<open>analyze_with_spacy\<close> returns. The keys \<open>adjective_count\<close> and
  \<open>word_count\<close> are set on one of its two return paths only, so they are optional
  fields: \<open>None\<close> is the absent key.
\<close>

record spacy_analysis =
  excitement_score :: real
  tension_score :: real
  has_intensifier :: bool
  has_negation :: bool
  adjective_count :: "nat option"
  word_count :: "nat option"

definition analyze_with_spacy :: "nlp option \<Rightarrow> string \<Rightarrow> spacy_analysis" where
  "analyze_with_spacy nlp text =
     (case nlp of
        None \<Rightarrow>
          \<lparr>excitement_score = 0, tension_score = 0, has_intensifier = False,
           has_negation = False, adjective_count = None, word_count = None\<rparr>
      | Some annotate \<Rightarrow>
          (let doc = annotate text;
               excitement_count = length (filter (\<lambda>t. lower (tok_lemma t) \<in> EXCITEMENT_LEMMAS) doc);
               tension_count = length (filter (\<lambda>t. lower (tok_lemma t) \<in> TENSION_LEMMAS) doc);
               intensifier_count = length (filter (\<lambda>t. lower (tok_lemma t) \<in> INTENSIFIERS) doc);
               negation = list_ex (\<lambda>t. lower (tok_lemma t) \<in> NEGATIONS) doc;
               adjectives = filter (\<lambda>t. tok_pos t \<in> {''ADJ'', ''ADV''}) doc;
               strong_adj_count =
                 length (filter (\<lambda>adj. lower (tok_lemma adj) \<in> EXCITEMENT_LEMMAS) adjectives);
               wc = length (filter (\<lambda>t. \<not> tok_is_punct t \<and> \<not> tok_is_space t) doc);
               excitement = (real excitement_count + real strong_adj_count * 0.5) / real (max wc 1);
               tension = real tension_count / real (max wc 1)
           in \<lparr>excitement_score = min (excitement * 3) 1.0,
               tension_score = min (tension * 3) 1.0,
               has_intensifier = (0 < intensifier_count),
               has_negation = negation,
               adjective_count = Some (length adjectives),
               word_count = Some wc\<rparr>))"

text \<open>The two pattern loops of \<open>calculate_intensity\<close> add a bonus for every pattern found.\<close>

fun add_pattern_bonus :: "real \<Rightarrow> string \<Rightarrow> regex list \<Rightarrow> real \<Rightarrow> real" where
  "add_pattern_bonus bonus text [] score = score"
| "add_pattern_bonus bonus text (pattern # rest) score =
     add_pattern_bonus bonus text rest
       (if re_search True pattern text then score + bonus else score)"

definition calculate_intensity :: "nlp option \<Rightarrow> string \<Rightarrow> real" where
  "calculate_intensity nlp text =
     (let analysis = analyze_with_spacy nlp text;
          score = 0.0;
          score = score + excitement_score analysis * 0.4;
          score = score + tension_score analysis * 0.2;
          score = (if has_intensifier analysis then score + 0.1 else score);
          score = add_pattern_bonus 0.2 text high_patterns score;
          score = add_pattern_bonus 0.08 text medium_patterns score;
          exclamation_count = count_char CHR ''!'' text;
          score = score + min (real exclamation_count * 0.08) 0.25;
          question_count = count_char CHR ''?'' text;
          score = score + min (real question_count * 0.05) 0.1;
          caps_chars = length (filter is_upper text);
          alpha_chars = length (filter is_alpha text);
          score = (if 0 < alpha_chars \<and> 0.3 < real caps_chars / real alpha_chars
                   then score + 0.15 else score)
      in min score 1.0)"

datatype mood = Mood_exciting | Mood_moderate | Mood_calm

datatype sentiment = Very_exciting | Exciting | Tense | Moderate | Calm

definition classify_moment :: "real \<Rightarrow> mood" where
  "classify_moment intensity =
     (if 0.6 \<le> intensity then Mood_exciting
      else if 0.3 \<le> intensity then Mood_moderate
      else Mood_calm)"

definition get_sentiment_label :: "real \<Rightarrow> real \<Rightarrow> sentiment" where
  "get_sentiment_label intensity tension =
     (if 0.7 \<le> intensity then Very_exciting
      else if 0.5 \<le> intensity then (if 0.3 < tension then Tense else Exciting)
      else if 0.3 \<le> intensity then Moderate
      else Calm)"

definition calculate_intensity_with_volume :: "nlp option \<Rightarrow> string \<Rightarrow> real \<Rightarrow> real" where
  "calculate_intensity_with_volume nlp text volume_score =
     (let text_intensity = calculate_intensity nlp text;
          combined_intensity = text_intensity * 0.6 + volume_score * 0.4;
          combined_intensity =
            (if 0.5 < text_intensity \<and> 0.5 < volume_score
             then min (combined_intensity + 0.1) 1.0 else combined_intensity)
      in py_round combined_intensity 2)"

text \<open>A segment with its volume metrics, as \<open>get_volume_for_segments\<close> returns it.\<close>

record volume_segment =
  vs_start :: "real option"
  vs_volume_score :: "real option"

record linguistic_features =
  lf_excitement_score :: real
  lf_tension_score :: real
  lf_has_intensifier :: bool
  lf_word_count :: nat

record intensity_record =
  ir_time :: real
  ir_text :: string
  ir_intensity :: real
  ir_mood :: mood
  ir_sentiment :: sentiment
  ir_linguistic_features :: linguistic_features
  ir_audio_features :: "real option"

text \<open>
  \<open>volume_lookup\<close>: the start time rounded to one decimal is the key, a later segment
  overwrites an earlier one with the same key. \<open>d.get(k, 0)\<close> is \<open>get_or d k 0\<close>.
\<close>

fun build_volume_lookup :: "(real \<rightharpoonup> real) \<Rightarrow> volume_segment list \<Rightarrow> (real \<rightharpoonup> real)" where
  "build_volume_lookup volume_lookup [] = volume_lookup"
| "build_volume_lookup volume_lookup (seg # rest) =
     (let time_key = py_round (case vs_start seg of None \<Rightarrow> 0 | Some s \<Rightarrow> s) 1
      in build_volume_lookup
           (volume_lookup(time_key \<mapsto> (case vs_volume_score seg of None \<Rightarrow> 0 | Some v \<Rightarrow> v)))
           rest)"

definition get_or :: "('k \<rightharpoonup> 'v) \<Rightarrow> 'k \<Rightarrow> 'v \<Rightarrow> 'v" where
  "get_or d k dflt = (case d k of None \<Rightarrow> dflt | Some v \<Rightarrow> v)"

text \<open>
  The body of the loop of \<open>analyze_sentiment\<close>. The record is built field by field in
  the order of the dict literal; \<open>spacy_analysis["word_count"]\<close> raises on the absent key.
\<close>

definition analyze_segment ::
    "nlp option \<Rightarrow> (real \<rightharpoonup> real) \<Rightarrow> segment \<Rightarrow> error + intensity_record" where
  "analyze_segment nlp volume_lookup seg =
     (let text = (case seg_text seg of None \<Rightarrow> [] | Some t \<Rightarrow> t);
          start_time = (case seg_start seg of None \<Rightarrow> 0 | Some s \<Rightarrow> s);
          analysis = analyze_with_spacy nlp text;
          volume_score = get_or volume_lookup (py_round start_time 1) 0;
          intensity = (if 0 < volume_score
                       then calculate_intensity_with_volume nlp text volume_score
                       else calculate_intensity nlp text)
      in case word_count analysis of
           None \<Rightarrow> Inl (KeyError ''word_count'')
         | Some wc \<Rightarrow>
             Inr \<lparr>ir_time = start_time,
                  ir_text = strip text,
                  ir_intensity = intensity,
                  ir_mood = classify_moment intensity,
                  ir_sentiment = get_sentiment_label intensity (tension_score analysis),
                  ir_linguistic_features =
                    \<lparr>lf_excitement_score = py_round (excitement_score analysis) 2,
                     lf_tension_score = py_round (tension_score analysis) 2,
                     lf_has_intensifier = has_intensifier analysis,
                     lf_word_count = wc\<rparr>,
                  ir_audio_features = (if 0 < volume_score then Some volume_score else None)\<rparr>)"

fun analyze_loop ::
    "nlp option \<Rightarrow> (real \<rightharpoonup> real) \<Rightarrow> intensity_record list \<Rightarrow> segment list
     \<Rightarrow> error + intensity_record list" where
  "analyze_loop nlp volume_lookup results [] = Inr results"
| "analyze_loop nlp volume_lookup results (seg # rest) =
     (case analyze_segment nlp volume_lookup seg of
        Inl e \<Rightarrow> Inl e
      | Inr result \<Rightarrow> analyze_loop nlp volume_lookup (results @ [result]) rest)"

text \<open>
  \<open>segments_with_volume\<close> defaults to \<open>None\<close>, which the test \<open>if segments_with_volume:\<close>
  treats as the empty list; the empty list stands for both.
\<close>

definition analyze_sentiment ::
    "nlp option \<Rightarrow> segment list \<Rightarrow> volume_segment list \<Rightarrow> error + intensity_record list" where
  "analyze_sentiment nlp segments segments_with_volume =
     analyze_loop nlp (build_volume_lookup Map.empty segments_with_volume) [] segments"

text \<open>
  \<open>get_intensity_summary\<close>. The two counting dicts have a fixed key set, so they are
  functions from the label to its count; \<open>max(analyzed, key=...)\<close> keeps the first of
  several maximal records.
\<close>

record intensity_summary =
  average_intensity :: real
  peak_intensity :: real
  peak_moment_time :: real
  mood_distribution :: "mood \<Rightarrow> nat"
  sentiment_distribution :: "sentiment \<Rightarrow> nat"
  total_segments :: nat
  exciting_percentage :: real

fun count_labels ::
    "(mood \<Rightarrow> nat) \<Rightarrow> (sentiment \<Rightarrow> nat) \<Rightarrow> intensity_record list
     \<Rightarrow> (mood \<Rightarrow> nat) \<times> (sentiment \<Rightarrow> nat)" where
  "count_labels moods sentiments [] = (moods, sentiments)"
| "count_labels moods sentiments (m # rest) =
     count_labels (moods(ir_mood m := moods (ir_mood m) + 1))
                  (sentiments(ir_sentiment m := sentiments (ir_sentiment m) + 1)) rest"

fun max_by_intensity :: "intensity_record \<Rightarrow> intensity_record list \<Rightarrow> intensity_record" where
  "max_by_intensity best [] = best"
| "max_by_intensity best (m # rest) =
     max_by_intensity (if ir_intensity best < ir_intensity m then m else best) rest"

definition get_intensity_summary :: "intensity_record list \<Rightarrow> intensity_summary" where
  "get_intensity_summary analyzed =
     (let (moods, sentiments) = count_labels (\<lambda>_. 0) (\<lambda>_. 0) analyzed;
          total = length analyzed;
          avg_intensity = (if 0 < total then sum_list (map ir_intensity analyzed) / real total
                           else 0);
          peak = (case analyzed of [] \<Rightarrow> None | m # rest \<Rightarrow> Some (max_by_intensity m rest))
      in \<lparr>average_intensity = py_round avg_intensity 2,
          peak_intensity = (case peak of Some pk \<Rightarrow> py_round (ir_intensity pk) 2 | None \<Rightarrow> 0),
          peak_moment_time = (case peak of Some pk \<Rightarrow> ir_time pk | None \<Rightarrow> 0),
          mood_distribution = moods,
          sentiment_distribution = sentiments,
          total_segments = total,
          exciting_percentage =
            (if 0 < total then py_round (real (moods Mood_exciting) / real total * 100) 1
             else 0)\<rparr>)"

section \<open>Volume peaks (audio_volume.py)\<close>

text \<open>
  What \<open>load_audio\<close> returns for the file: the sample rate and the mono samples.
\<close>

record audio =
  sample_rate :: nat
  audio_data :: "real list"

definition calculate_rms :: "real list \<Rightarrow> real" where
  "calculate_rms audio_chunk =
     sqrt (sum_list (map (\<lambda>x. x ^ 2) audio_chunk) / real (length audio_chunk))"

record point =
  pt_time :: real
  pt_volume :: real

record peak =
  pk_time :: real
  pk_volume :: real
  pk_type :: string

text \<open>\<open>range(0, n, step)\<close> for a positive step.\<close>

definition py_range :: "nat \<Rightarrow> nat \<Rightarrow> nat list" where
  "py_range n step = map (\<lambda>k. k * step) [0..<(n + step - 1) div step]"

text \<open>
  \<open>get_volume_timeline\<close>: \<open>len(audio_data) / sample_rate\<close> raises for a zero rate,
  \<open>int(...)\<close> truncates towards zero, \<open>range\<close> raises for a zero step and is empty for
  a negative one. Every index of the range is below \<open>len(audio_data)\<close>, so no chunk is
  empty and the test \<open>len(chunk) > 0\<close> always holds.
\<close>

definition get_volume_timeline :: "audio \<Rightarrow> real \<Rightarrow> error + point list" where
  "get_volume_timeline a window_seconds =
     (if sample_rate a = 0 then Inl ZeroDivisionError
      else
        let w = window_seconds * real (sample_rate a);
            window_samples = (if 0 \<le> w then \<lfloor>w\<rfloor> else \<lceil>w\<rceil>);
            global_rms = calculate_rms (audio_data a)
        in if window_samples = 0 then Inl ValueError
           else if window_samples < 0 then Inr []
           else Inr (map (\<lambda>i.
                       let chunk = take (nat window_samples) (drop i (audio_data a));
                           rms = calculate_rms chunk;
                           rms_normalized = (if 0 < global_rms then min (rms / (global_rms * 2)) 1.0
                                             else 0)
                       in \<lparr>pt_time = py_round (real i / real (sample_rate a)) 2,
                           pt_volume = py_round rms_normalized 3\<rparr>)
                     (py_range (length (audio_data a)) (nat window_samples))))"

text \<open>The scan of \<open>detect_volume_peaks\<close>, with \<open>peaks\<close> and \<open>last_peak_time\<close> as its state.\<close>

fun peak_loop :: "real \<Rightarrow> real \<Rightarrow> peak list \<Rightarrow> real \<Rightarrow> point list \<Rightarrow> peak list" where
  "peak_loop threshold min_gap_seconds peaks last_peak_time [] = peaks"
| "peak_loop threshold min_gap_seconds peaks last_peak_time (pt # rest) =
     (if threshold \<le> pt_volume pt \<and> min_gap_seconds \<le> pt_time pt - last_peak_time
      then peak_loop threshold min_gap_seconds
             (peaks @ [\<lparr>pk_time = pt_time pt, pk_volume = pt_volume pt,
                        pk_type = ''high_volume_moment''\<rparr>])
             (pt_time pt) rest
      else peak_loop threshold min_gap_seconds peaks last_peak_time rest)"

definition detect_volume_peaks :: "audio \<Rightarrow> real \<Rightarrow> real \<Rightarrow> error + peak list" where
  "detect_volume_peaks a threshold min_gap_seconds =
     (case get_volume_timeline a 1.0 of
        Inl e \<Rightarrow> Inl e
      | Inr timeline \<Rightarrow> Inr (peak_loop threshold min_gap_seconds [] (- min_gap_seconds) timeline))"

section \<open>Notions used in the statements\<close>

text \<open>
  Two events are in conflict when they have the same type and lie closer together than
  the window of that type.
\<close>

definition conflict :: "event \<Rightarrow> event \<Rightarrow> bool" where
  "conflict a c = (ev_type a = ev_type c
      \<and> \<bar>ev_time a - ev_time c\<bar> < (if ev_type c = Goal then 15 else 10))"

text \<open>
  The priority order of the event categories, and what it means for a category to match
  a text and to come before another category.
\<close>

definition priority_order :: "event_type list" where
  "priority_order = [Goal, Foul, Yellow_card, Red_card, Offside, Substitution, Injury]"

definition category_matches :: "event_type \<Rightarrow> string \<Rightarrow> bool" where
  "category_matches c t =
     list_ex (\<lambda>(c', patterns). c' = c \<and> list_ex (\<lambda>p. re_search False p t) patterns) EVENT_PATTERNS"

definition precedes :: "event_type \<Rightarrow> event_type \<Rightarrow> bool" where
  "precedes c' c = (c' \<in> set (takeWhile (\<lambda>x. x \<noteq> c) priority_order))"

text \<open>Two peaks, the second at least the gap after the first.\<close>

definition apart :: "real \<Rightarrow> peak \<Rightarrow> peak \<Rightarrow> bool" where
  "apart g p q = (g \<le> pk_time q - pk_time p)"

text \<open>
  The fused intensity in the words of the specification: 0.6 of the text intensity plus
  0.4 of the volume score, plus 0.1 when both exceed 0.5, clamped at 1.0 and rounded to
  two decimals.
\<close>

definition spec_fused_intensity :: "real \<Rightarrow> real \<Rightarrow> real" where
  "spec_fused_intensity text_intensity volume_score =
     py_round (min (text_intensity * 0.6 + volume_score * 0.4
                    + (if 0.5 < text_intensity \<and> 0.5 < volume_score then 0.1 else 0)) 1.0) 2"

text \<open>
  What the loop of \<open>analyze_sentiment\<close> reads of a segment, \<open>segment.get("text", "")\<close>
  and \<open>segment.get("start", 0)\<close>, and the volume score it looks up for it.
\<close>

definition segment_text :: "segment \<Rightarrow> string" where
  "segment_text seg = (case seg_text seg of None \<Rightarrow> [] | Some t \<Rightarrow> t)"

definition segment_start :: "segment \<Rightarrow> real" where
  "segment_start seg = (case seg_start seg of None \<Rightarrow> 0 | Some s \<Rightarrow> s)"

definition looked_up_volume :: "volume_segment list \<Rightarrow> segment \<Rightarrow> real" where
  "looked_up_volume segments_with_volume seg =
     get_or (build_volume_lookup Map.empty segments_with_volume)
            (py_round (segment_start seg) 1) 0"

text \<open>The intensity that the loop stores for a segment when the model is loaded.\<close>

definition chosen_intensity :: "nlp \<Rightarrow> (real \<rightharpoonup> real) \<Rightarrow> segment \<Rightarrow> real" where
  "chosen_intensity annotate volume_lookup seg =
     (let v = get_or volume_lookup (py_round (segment_start seg) 1) 0
      in if 0 < v then calculate_intensity_with_volume (Some annotate) (segment_text seg) v
         else calculate_intensity (Some annotate) (segment_text seg))"

text \<open>A number with at most two decimals is one that rounding to two decimals keeps.\<close>

definition two_decimal :: "real \<Rightarrow> bool" where
  "two_decimal x = (py_round x 2 = x)"

text \<open>
  A loaded model on two texts: the annotation spaCy gives for a sentence of seven words
  with one excitement lemma, and for an interjection with an exclamation mark.
\<close>

definition word_token :: "string \<Rightarrow> string \<Rightarrow> token" where
  "word_token l p = \<lparr>tok_lemma = l, tok_pos = p, tok_is_punct = False, tok_is_space = False\<rparr>"

definition sample_annotation :: nlp where
  "sample_annotation text =
     (if text = ''And it is a goal for us'' then
        [word_token ''and'' ''CCONJ'', word_token ''it'' ''PRON'', word_token ''be'' ''AUX'',
         word_token ''a'' ''DET'', word_token ''goal'' ''NOUN'', word_token ''for'' ''ADP'',
         word_token ''we'' ''PRON'']
      else if text = ''Oh!'' then
        [word_token ''oh'' ''INTJ'',
         \<lparr>tok_lemma = ''!'', tok_pos = ''PUNCT'', tok_is_punct = True, tok_is_space = False\<rparr>]
      else [])"

section \<open>The event deduplicator\<close>

lemma dedup_loop_Cons:
  "dedup_loop acc (e # es) =
     (if list_ex (\<lambda>a. conflict a e) acc then dedup_loop acc es else dedup_loop (acc @ [e]) es)"
  by (cases "ev_type e = Goal")
     (simp_all add: conflict_def GOAL_TIME_WINDOW_def EVENT_TIME_WINDOW_def)

lemma dedup_loop_snoc:
  "dedup_loop acc (es @ [c]) =
     (if list_ex (\<lambda>a. conflict a c) (dedup_loop acc es) then dedup_loop acc es
      else dedup_loop acc es @ [c])"
proof (induction es arbitrary: acc)
  case Nil
  show ?case by (simp add: dedup_loop_Cons del: dedup_loop.simps(2))
next
  case (Cons e es)
  then show ?case by (simp add: dedup_loop_Cons del: dedup_loop.simps(2))
qed

lemma dedup_loop_keeps:
  "sorted_wrt (\<lambda>a c. \<not> conflict a c) (acc @ es) \<Longrightarrow> dedup_loop acc es = acc @ es"
proof (induction es arbitrary: acc)
  case Nil
  then show ?case by simp
next
  case (Cons e es)
  from Cons.prems have free: "\<not> list_ex (\<lambda>a. conflict a e) acc"
    by (simp add: sorted_wrt_append list_ex_iff)
  from Cons.prems have "sorted_wrt (\<lambda>a c. \<not> conflict a c) ((acc @ [e]) @ es)"
    by simp
  then have "dedup_loop (acc @ [e]) es = (acc @ [e]) @ es"
    by (rule Cons.IH)
  with free show ?case
    by (simp add: dedup_loop_Cons del: dedup_loop.simps(2))
qed

lemma dedup_loop_separated:
  "sorted_wrt (\<lambda>a c. \<not> conflict a c) acc \<Longrightarrow>
   sorted_wrt (\<lambda>a c. \<not> conflict a c) (dedup_loop acc es)"
proof (induction es arbitrary: acc)
  case Nil
  then show ?case by simp
next
  case (Cons e es)
  show ?case
  proof (cases "list_ex (\<lambda>a. conflict a e) acc")
    case True
    then have "dedup_loop acc (e # es) = dedup_loop acc es"
      by (simp add: dedup_loop_Cons del: dedup_loop.simps(2))
    with Cons show ?thesis by simp
  next
    case False
    then have step: "dedup_loop acc (e # es) = dedup_loop (acc @ [e]) es"
      by (simp add: dedup_loop_Cons del: dedup_loop.simps(2))
    from False Cons.prems have "sorted_wrt (\<lambda>a c. \<not> conflict a c) (acc @ [e])"
      by (simp add: sorted_wrt_append list_ex_iff)
    then show ?thesis unfolding step by (rule Cons.IH)
  qed
qed

text \<open>
  C5. The deduplicator goes through the candidates in their order: the candidate that
  comes after the candidates \<open>candidates\<close> is accepted, and appended to what they left,
  if and only if no event accepted so far has its type and lies less than the window away
  from it, the window being 15 seconds for a goal and 10 seconds for any other type.
  Goals at 100, 108 and 200 seconds leave the goals at 100 and 200.
\<close>

theorem deduplicate_accepts_iff:
  "deduplicate (candidates @ [c]) =
     (if \<exists>a \<in> set (deduplicate candidates).
           ev_type a = ev_type c
           \<and> \<bar>ev_time c - ev_time a\<bar> < (if ev_type c = Goal then 15 else 10)
      then deduplicate candidates
      else deduplicate candidates @ [c])
   \<and> deduplicate [\<lparr>ev_type = Goal, ev_text = t1, ev_time = 100\<rparr>,
                  \<lparr>ev_type = Goal, ev_text = t2, ev_time = 108\<rparr>,
                  \<lparr>ev_type = Goal, ev_text = t3, ev_time = 200\<rparr>]
     = [\<lparr>ev_type = Goal, ev_text = t1, ev_time = 100\<rparr>,
        \<lparr>ev_type = Goal, ev_text = t3, ev_time = 200\<rparr>]"
proof
  have flip: "(ev_type a = ev_type c
               \<and> \<bar>ev_time c - ev_time a\<bar> < (if ev_type c = Goal then 15 else 10))
              = conflict a c" for a
    by (simp add: conflict_def abs_minus_commute)
  show "deduplicate (candidates @ [c]) =
     (if \<exists>a \<in> set (deduplicate candidates).
           ev_type a = ev_type c
           \<and> \<bar>ev_time c - ev_time a\<bar> < (if ev_type c = Goal then 15 else 10)
      then deduplicate candidates
      else deduplicate candidates @ [c])"
    unfolding deduplicate_def dedup_loop_snoc [of "[]" candidates c] flip
    by (simp add: list_ex_iff)
next
  show "deduplicate [\<lparr>ev_type = Goal, ev_text = t1, ev_time = 100\<rparr>,
                  \<lparr>ev_type = Goal, ev_text = t2, ev_time = 108\<rparr>,
                  \<lparr>ev_type = Goal, ev_text = t3, ev_time = 200\<rparr>]
     = [\<lparr>ev_type = Goal, ev_text = t1, ev_time = 100\<rparr>,
        \<lparr>ev_type = Goal, ev_text = t3, ev_time = 200\<rparr>]"
    by (simp add: deduplicate_def GOAL_TIME_WINDOW_def)
qed

theorem deduplicate_accepts_iff_witness:
  "deduplicate ([\<lparr>ev_type = Foul, ev_text = ''a foul'', ev_time = 30\<rparr>,
                 \<lparr>ev_type = Goal, ev_text = ''he scores'', ev_time = 31\<rparr>]
                @ [\<lparr>ev_type = Foul, ev_text = ''fouled again'', ev_time = 39\<rparr>])
   = [\<lparr>ev_type = Foul, ev_text = ''a foul'', ev_time = 30\<rparr>,
      \<lparr>ev_type = Goal, ev_text = ''he scores'', ev_time = 31\<rparr>]
   \<and> deduplicate ([\<lparr>ev_type = Foul, ev_text = ''a foul'', ev_time = 30\<rparr>]
                @ [\<lparr>ev_type = Foul, ev_text = ''fouled again'', ev_time = 40\<rparr>])
   = [\<lparr>ev_type = Foul, ev_text = ''a foul'', ev_time = 30\<rparr>,
      \<lparr>ev_type = Foul, ev_text = ''fouled again'', ev_time = 40\<rparr>]"
  using deduplicate_accepts_iff
          [of "[\<lparr>ev_type = Foul, ev_text = ''a foul'', ev_time = 30\<rparr>,
                \<lparr>ev_type = Goal, ev_text = ''he scores'', ev_time = 31\<rparr>]"
              "\<lparr>ev_type = Foul, ev_text = ''fouled again'', ev_time = 39\<rparr>"]
        deduplicate_accepts_iff
          [of "[\<lparr>ev_type = Foul, ev_text = ''a foul'', ev_time = 30\<rparr>]"
              "\<lparr>ev_type = Foul, ev_text = ''fouled again'', ev_time = 40\<rparr>"]
  by (simp add: deduplicate_def GOAL_TIME_WINDOW_def EVENT_TIME_WINDOW_def)

text \<open>
  C6. The deduplicator is idempotent: on its own output it suppresses nothing more.
\<close>

theorem deduplicate_idempotent:
  "deduplicate (deduplicate events) = deduplicate events"
proof -
  have "sorted_wrt (\<lambda>a c. \<not> conflict a c) (dedup_loop [] events)"
    by (rule dedup_loop_separated) simp
  then have "dedup_loop [] (dedup_loop [] events) = [] @ dedup_loop [] events"
    by (intro dedup_loop_keeps) simp
  then show ?thesis by (simp add: deduplicate_def)
qed

section \<open>The event pattern matcher\<close>

lemma all_event_type:
  "(\<forall>c. P c) = (P Goal \<and> P Foul \<and> P Yellow_card \<and> P Red_card \<and> P Offside
                 \<and> P Substitution \<and> P Injury)"
  by (metis event_type.exhaust)

lemma first_match_characterised:
  "(first_match EVENT_PATTERNS t = Some c)
     = (category_matches c t \<and> (\<forall>c'. precedes c' c \<longrightarrow> \<not> category_matches c' t))"
  by (cases c)
     (simp_all add: EVENT_PATTERNS_def category_matches_def precedes_def priority_order_def
        all_event_type)

lemma first_match_none:
  "(first_match EVENT_PATTERNS t = None) = (\<forall>c. \<not> category_matches c t)"
  by (simp add: EVENT_PATTERNS_def category_matches_def all_event_type)

text \<open>
  C4. A segment that has a text and a start time yields at most one event. A category is
  the type of that event if and only if one of its patterns matches the lowercased text
  and no pattern of a category before it in the order goal, foul, yellow card, red card,
  offside, substitution, injury does; so a text that a goal pattern matches is a goal,
  whatever else matches it. That order is the order of the pattern table.
\<close>

theorem first_category_wins:
  assumes "seg_text seg = Some text" and "seg_start seg = Some start_time"
  shows "\<exists>evs. detect_candidates [] [seg] = Inr evs \<and> length evs \<le> 1
     \<and> (\<forall>c. (c \<in> ev_type ` set evs)
             = (category_matches c (lower text)
                \<and> (\<forall>c'. precedes c' c \<longrightarrow> \<not> category_matches c' (lower text))))
     \<and> (category_matches Goal (lower text) \<longrightarrow> map ev_type evs = [Goal])
     \<and> map fst EVENT_PATTERNS = priority_order"
proof (cases "first_match EVENT_PATTERNS (lower text)")
  case None
  then have "\<forall>c. \<not> category_matches c (lower text)"
    by (simp add: first_match_none)
  moreover from None assms have "detect_candidates [] [seg] = Inr []"
    by (simp add: segment_events_def)
  ultimately show ?thesis
    by (simp add: EVENT_PATTERNS_def priority_order_def)
next
  case (Some ty)
  with assms have run: "detect_candidates [] [seg]
      = Inr [\<lparr>ev_type = ty, ev_text = strip text, ev_time = start_time\<rparr>]"
    by (simp add: segment_events_def)
  have only: "(c = ty) = (category_matches c (lower text)
                \<and> (\<forall>c'. precedes c' c \<longrightarrow> \<not> category_matches c' (lower text)))" for c
    using Some first_match_characterised [of "lower text" c] by auto
  have goal: "category_matches Goal (lower text) \<Longrightarrow> ty = Goal"
    using only [of Goal] by (simp add: precedes_def priority_order_def)
  show ?thesis
    unfolding run using only goal
    by (simp add: EVENT_PATTERNS_def priority_order_def)
qed

theorem first_category_wins_witness:
  "\<exists>evs. detect_candidates []
            [\<lparr>seg_start = Some 12, seg_end = Some 15,
              seg_text = Some '' What a goal, and a yellow card for the celebration ''\<rparr>] = Inr evs
         \<and> map ev_type evs = [Goal]
         \<and> category_matches Yellow_card
              (lower '' What a goal, and a yellow card for the celebration '')"
proof -
  let ?text = "'' What a goal, and a yellow card for the celebration ''"
  let ?seg = "\<lparr>seg_start = Some 12, seg_end = Some 15, seg_text = Some ?text\<rparr>"
  have g: "category_matches Goal (lower ?text)"
    by code_simp
  have y: "category_matches Yellow_card (lower ?text)"
    by code_simp
  have t: "seg_text ?seg = Some ?text"
    by simp
  have s: "seg_start ?seg = Some 12"
    by simp
  from first_category_wins [OF t s]
  obtain evs where all:
    "detect_candidates [] [?seg] = Inr evs \<and> length evs \<le> 1
     \<and> (\<forall>c. (c \<in> ev_type ` set evs)
             = (category_matches c (lower ?text)
                \<and> (\<forall>c'. precedes c' c \<longrightarrow> \<not> category_matches c' (lower ?text))))
     \<and> (category_matches Goal (lower ?text) \<longrightarrow> map ev_type evs = [Goal])
     \<and> map fst EVENT_PATTERNS = priority_order" ..
  from all have run: "detect_candidates [] [?seg] = Inr evs"
    by (elim conjE)
  from all have imp: "category_matches Goal (lower ?text) \<longrightarrow> map ev_type evs = [Goal]"
    by (elim conjE)
  from imp g have "map ev_type evs = [Goal]"
    by (rule mp)
  with run y show ?thesis
    by (intro exI [of _ evs] conjI)
qed

section \<open>Intensity records\<close>

text \<open>
  C1. Without a loaded model (\<open>nlp\<close> is \<open>None\<close>) \<open>analyze_sentiment\<close> produces no
  record: for every segment list that is not empty it raises \<open>KeyError\<close> on the key
  \<open>word_count\<close>, which the fallback of \<open>analyze_with_spacy\<close> does not set.
\<close>

theorem missing_model_raises:
  "analyze_sentiment None (seg # rest) segments_with_volume = Inl (KeyError ''word_count'')
   \<and> analyze_sentiment None
        [\<lparr>seg_start = Some 0, seg_end = Some 5, seg_text = Some ''What a goal!''\<rparr>] []
      = Inl (KeyError ''word_count'')"
  by (simp add: analyze_sentiment_def analyze_segment_def analyze_with_spacy_def)

text \<open>
  C2. The text \<open>goal\<close> has no uppercase letter, and yet the pattern for runs of capitals
  and the pattern for shouted words are found in it, because the search ignores case;
  they are the only patterns found, and they give the text the intensity 0.4.
\<close>

theorem lowercase_text_gets_caps_bonuses:
  "filter is_upper ''goal'' = []
   \<and> re_search True caps_pattern ''goal''
   \<and> re_search True shout_pattern ''goal''
   \<and> map (\<lambda>p. re_search True p ''goal'') high_patterns = [False, True, True, False, False]
   \<and> map (\<lambda>p. re_search True p ''goal'') medium_patterns = [False, False, False]
   \<and> calculate_intensity None ''goal'' = 2 / 5"
  by code_simp

text \<open>
  C9. The summary of the empty list of records: every number is 0, no label is counted,
  and there is no peak, so its time is reported as 0.
\<close>

theorem empty_summary:
  "get_intensity_summary [] =
     \<lparr>average_intensity = 0, peak_intensity = 0, peak_moment_time = 0,
      mood_distribution = (\<lambda>_. 0), sentiment_distribution = (\<lambda>_. 0),
      total_segments = 0, exciting_percentage = 0\<rparr>"
  by (simp add: get_intensity_summary_def py_round_def round_half_even_def)

section \<open>The range of the intensity\<close>

lemma round_half_even_lower: "of_int a \<le> y \<Longrightarrow> a \<le> round_half_even y"
proof -
  assume "of_int a \<le> y"
  then have "a \<le> \<lfloor>y\<rfloor>" by (simp add: le_floor_iff)
  then show ?thesis by (simp add: round_half_even_def Let_def)
qed

lemma round_half_even_upper: "y \<le> of_int b \<Longrightarrow> round_half_even y \<le> b"
proof -
  assume le: "y \<le> of_int b"
  then have fl: "\<lfloor>y\<rfloor> \<le> b" by (simp add: floor_le_iff)
  show ?thesis
  proof (cases "\<lfloor>y\<rfloor> = b")
    case True
    with le have "y - of_int \<lfloor>y\<rfloor> \<le> 0" by simp
    then show ?thesis using True by (simp add: round_half_even_def Let_def)
  next
    case False
    with fl have "\<lfloor>y\<rfloor> + 1 \<le> b" by simp
    then show ?thesis by (simp add: round_half_even_def Let_def)
  qed
qed

lemma py_round_unit: "0 \<le> x \<Longrightarrow> x \<le> 1 \<Longrightarrow> 0 \<le> py_round x 2 \<and> py_round x 2 \<le> 1"
proof -
  assume "0 \<le> x" and "x \<le> 1"
  then have "of_int 0 \<le> x * 10 ^ 2" and "x * 10 ^ 2 \<le> of_int 100" by simp_all
  then have "0 \<le> round_half_even (x * 10 ^ 2)" and "round_half_even (x * 10 ^ 2) \<le> 100"
    by (simp_all only: round_half_even_lower round_half_even_upper)
  then show ?thesis by (simp add: py_round_def)
qed

lemma analyze_with_spacy_nonneg:
  "0 \<le> excitement_score (analyze_with_spacy nlp text)
   \<and> 0 \<le> tension_score (analyze_with_spacy nlp text)"
  by (cases nlp) (simp_all add: analyze_with_spacy_def Let_def)

lemma add_pattern_bonus_mono:
  "0 \<le> bonus \<Longrightarrow> score \<le> add_pattern_bonus bonus text patterns score"
proof (induction patterns arbitrary: score)
  case Nil
  show ?case by simp
next
  case (Cons p ps)
  have "score \<le> (if re_search True p text then score + bonus else score)"
    using Cons.prems by simp
  also have "\<dots> \<le> add_pattern_bonus bonus text ps
                     (if re_search True p text then score + bonus else score)"
    using Cons.prems by (rule Cons.IH)
  finally show ?case by simp
qed

lemma calculate_intensity_unit:
  "0 \<le> calculate_intensity nlp text \<and> calculate_intensity nlp text \<le> 1"
proof -
  define s3 where "s3 = (let analysis = analyze_with_spacy nlp text;
          score = 0.0;
          score = score + excitement_score analysis * 0.4;
          score = score + tension_score analysis * 0.2
      in (if has_intensifier analysis then score + 0.1 else score))"
  define s4 where "s4 = add_pattern_bonus 0.2 text high_patterns s3"
  define s5 where "s5 = add_pattern_bonus 0.08 text medium_patterns s4"
  define s7 where "s7 = s5 + min (real (count_char CHR ''!'' text) * 0.08) 0.25
                           + min (real (count_char CHR ''?'' text) * 0.05) 0.1"
  define s8 where "s8 = (if 0 < length (filter is_alpha text)
                           \<and> 0.3 < real (length (filter is_upper text)) / real (length (filter is_alpha text))
                   then s7 + 0.15 else s7)"
  have eq: "calculate_intensity nlp text = min s8 1.0"
    by (simp add: calculate_intensity_def Let_def s3_def s4_def s5_def s7_def s8_def)
  have "0 \<le> s3"
    using analyze_with_spacy_nonneg [of nlp "text"] by (simp add: s3_def Let_def)
  also have "s3 \<le> s4"
    unfolding s4_def by (rule add_pattern_bonus_mono) simp
  also have "s4 \<le> s5"
    unfolding s5_def by (rule add_pattern_bonus_mono) simp
  also have "s5 \<le> s7"
    by (simp add: s7_def)
  also have "s7 \<le> s8"
    by (simp add: s8_def)
  finally have "0 \<le> s8" .
  then show ?thesis by (simp add: eq)
qed

text \<open>
  C3. The intensity that \<open>calculate_intensity\<close> computes for a text lies between 0 and 1,
  and so does the intensity that \<open>calculate_intensity_with_volume\<close> computes for a text
  and a volume score between 0 and 1, whichever bonus terms are added.
\<close>

theorem intensity_in_unit_interval:
  "0 \<le> calculate_intensity nlp text \<and> calculate_intensity nlp text \<le> 1
   \<and> (0 \<le> volume_score \<and> volume_score \<le> 1 \<longrightarrow>
        0 \<le> calculate_intensity_with_volume nlp text volume_score
        \<and> calculate_intensity_with_volume nlp text volume_score \<le> 1)"
proof (intro conjI impI)
  show "0 \<le> calculate_intensity nlp text" and "calculate_intensity nlp text \<le> 1"
    using calculate_intensity_unit [of nlp "text"] by simp_all
next
  assume v: "0 \<le> volume_score \<and> volume_score \<le> 1"
  define ti where "ti = calculate_intensity nlp text"
  define c where "c = (if 0.5 < ti \<and> 0.5 < volume_score
                        then min (ti * 0.6 + volume_score * 0.4 + 0.1) 1.0
                        else ti * 0.6 + volume_score * 0.4)"
  have ti: "0 \<le> ti" "ti \<le> 1"
    using calculate_intensity_unit [of nlp "text"] by (simp_all add: ti_def)
  have eq: "calculate_intensity_with_volume nlp text volume_score = py_round c 2"
    by (simp add: calculate_intensity_with_volume_def Let_def ti_def c_def)
  have "0 \<le> c" and "c \<le> 1"
    using ti v by (simp_all add: c_def)
  then have "0 \<le> py_round c 2 \<and> py_round c 2 \<le> 1"
    by (rule py_round_unit)
  then show "0 \<le> calculate_intensity_with_volume nlp text volume_score"
    and "calculate_intensity_with_volume nlp text volume_score \<le> 1"
    by (simp_all add: eq)
qed

theorem intensity_in_unit_interval_witness:
  "0 \<le> calculate_intensity_with_volume None ''GOAL!!!'' (9 / 10)
   \<and> calculate_intensity_with_volume None ''GOAL!!!'' (9 / 10) \<le> 1
   \<and> calculate_intensity_with_volume None ''GOAL!!!'' (9 / 10) = 1"
proof -
  have "calculate_intensity_with_volume None ''GOAL!!!'' (9 / 10) = 1"
    by code_simp
  with intensity_in_unit_interval [of None "''GOAL!!!''" "9 / 10"] show ?thesis
    by simp
qed

section \<open>The volume peak detector\<close>

lemma round_half_even_of_int: "round_half_even (of_int z) = z"
  by (simp add: round_half_even_def)

lemma py_round_of_nat: "py_round (real k) 2 = real k"
proof -
  have "real k * 10 ^ 2 = of_int (int (k * 100))" by simp
  then have "round_half_even (real k * 10 ^ 2) = int (k * 100)"
    by (simp only: round_half_even_of_int)
  then show ?thesis by (simp add: py_round_def)
qed

lemma timeline_times:
  assumes "get_volume_timeline a 1.0 = Inr timeline"
  shows "\<exists>m. map pt_time timeline = map real [0..<m]"
proof -
  from assms have rate: "sample_rate a \<noteq> 0"
    by (auto simp: get_volume_timeline_def split: if_splits)
  have quot: "real (k * sample_rate a) / real (sample_rate a) = real k" for k
    using rate by simp
  from assms rate have "map pt_time timeline
      = map (\<lambda>i. py_round (real i / real (sample_rate a)) 2)
            (py_range (length (audio_data a)) (sample_rate a))"
    by (auto simp: get_volume_timeline_def Let_def comp_def)
  also have "\<dots> = map real [0..<(length (audio_data a) + sample_rate a - 1) div sample_rate a]"
    by (simp add: py_range_def comp_def quot py_round_of_nat del: of_nat_mult)
  finally show ?thesis by blast
qed

lemma timeline_sorted:
  assumes "get_volume_timeline a 1.0 = Inr timeline"
  shows "sorted (map pt_time timeline)"
proof -
  from timeline_times [OF assms] obtain m where "map pt_time timeline = map real [0..<m]" ..
  moreover have "sorted (map real [0..<m])"
    by (simp add: sorted_map sorted_wrt_iff_nth_less)
  ultimately show ?thesis by simp
qed

lemma peak_loop_invariant:
  assumes "0 \<le> g \<or> (sorted (map pt_time timeline)
                       \<and> (peaks \<noteq> [] \<longrightarrow> (\<forall>x\<in>set timeline. last_t \<le> pt_time x)))"
    and "\<forall>p\<in>set peaks. th \<le> pk_volume p"
    and "sorted_wrt (apart g) peaks"
    and "\<forall>p\<in>set peaks. pk_time p \<le> last_t"
  shows "(\<forall>p\<in>set (peak_loop th g peaks last_t timeline). th \<le> pk_volume p)
         \<and> sorted_wrt (apart g) (peak_loop th g peaks last_t timeline)"
  using assms
proof (induction timeline arbitrary: peaks last_t)
  case Nil
  then show ?case by simp
next
  case (Cons pt rest)
  show ?case
  proof (cases "th \<le> pt_volume pt \<and> g \<le> pt_time pt - last_t")
    case False
    from Cons.prems(1) have "0 \<le> g \<or> (sorted (map pt_time rest)
                       \<and> (peaks \<noteq> [] \<longrightarrow> (\<forall>x\<in>set rest. last_t \<le> pt_time x)))"
      by auto
    from Cons.IH [OF this Cons.prems(2) Cons.prems(3) Cons.prems(4)]
    have kept: "(\<forall>p\<in>set (peak_loop th g peaks last_t rest). th \<le> pk_volume p)
         \<and> sorted_wrt (apart g) (peak_loop th g peaks last_t rest)" .
    from False have "peak_loop th g peaks last_t (pt # rest) = peak_loop th g peaks last_t rest"
      by auto
    with kept show ?thesis by simp
  next
    case True
    let ?pk = "\<lparr>pk_time = pt_time pt, pk_volume = pt_volume pt, pk_type = ''high_volume_moment''\<rparr>"
    have later: "last_t \<le> pt_time pt" if "peaks \<noteq> []"
      using Cons.prems(1) True that by auto
    have before: "\<forall>p\<in>set peaks. pk_time p \<le> pt_time pt"
    proof
      fix p assume p: "p \<in> set peaks"
      then have "peaks \<noteq> []" by auto
      then have "last_t \<le> pt_time pt" by (rule later)
      with Cons.prems(4) p show "pk_time p \<le> pt_time pt" by force
    qed
    have a1: "0 \<le> g \<or> (sorted (map pt_time rest)
                \<and> (peaks @ [?pk] \<noteq> [] \<longrightarrow> (\<forall>x\<in>set rest. pt_time pt \<le> pt_time x)))"
      using Cons.prems(1) by auto
    have a2: "\<forall>p\<in>set (peaks @ [?pk]). th \<le> pk_volume p"
      using Cons.prems(2) True by simp
    have "\<forall>p\<in>set peaks. apart g p ?pk"
    proof
      fix p assume p: "p \<in> set peaks"
      with Cons.prems(4) have "pk_time p \<le> last_t" by simp
      with True show "apart g p ?pk" by (simp add: apart_def)
    qed
    then have a3: "sorted_wrt (apart g) (peaks @ [?pk])"
      using Cons.prems(3) by (simp add: sorted_wrt_append)
    have a4: "\<forall>p\<in>set (peaks @ [?pk]). pk_time p \<le> pt_time pt"
      using before by simp
    from Cons.IH [OF a1 a2 a3 a4] True show ?thesis by simp
  qed
qed

lemma peak_scan:
  assumes "0 \<le> g \<or> sorted (map pt_time timeline)"
  shows "(\<forall>p\<in>set (peak_loop th g [] (- g) timeline). th \<le> pk_volume p)
         \<and> (\<forall>i j. i < j \<and> j < length (peak_loop th g [] (- g) timeline) \<longrightarrow>
                g \<le> pk_time (peak_loop th g [] (- g) timeline ! j)
                      - pk_time (peak_loop th g [] (- g) timeline ! i))"
proof -
  from assms have "0 \<le> g \<or> (sorted (map pt_time timeline)
                       \<and> (([]::peak list) \<noteq> [] \<longrightarrow> (\<forall>x\<in>set timeline. - g \<le> pt_time x)))"
    by simp
  then have "(\<forall>p\<in>set (peak_loop th g [] (- g) timeline). th \<le> pk_volume p)
         \<and> sorted_wrt (apart g) (peak_loop th g [] (- g) timeline)"
    by (rule peak_loop_invariant) simp_all
  then show ?thesis
    by (simp add: sorted_wrt_iff_nth_less apart_def)
qed

text \<open>
  C7. Every peak that \<open>detect_volume_peaks\<close> returns has a volume of at least the
  threshold, and of any two of them the later one is at least \<open>min_gap_seconds\<close> after the
  earlier one; the detector returns for every audio with a positive sample rate. The scan
  itself, started with no peak and \<open>last_peak_time = -min_gap_seconds\<close>, has both
  properties on every timeline that is in chronological order, and on any timeline when
  the gap is not negative.
\<close>

theorem peaks_loud_and_apart:
  "(detect_volume_peaks a threshold min_gap_seconds = Inr peaks \<longrightarrow>
      (\<forall>p\<in>set peaks. threshold \<le> pk_volume p)
      \<and> (\<forall>i j. i < j \<and> j < length peaks \<longrightarrow>
             min_gap_seconds \<le> pk_time (peaks ! j) - pk_time (peaks ! i)))
   \<and> (0 < sample_rate a \<longrightarrow> (\<exists>found. detect_volume_peaks a threshold min_gap_seconds = Inr found))
   \<and> (0 \<le> min_gap_seconds \<or> sorted (map pt_time timeline) \<longrightarrow>
        (\<forall>p\<in>set (peak_loop threshold min_gap_seconds [] (- min_gap_seconds) timeline).
            threshold \<le> pk_volume p)
        \<and> (\<forall>i j. i < j
               \<and> j < length (peak_loop threshold min_gap_seconds [] (- min_gap_seconds) timeline) \<longrightarrow>
               min_gap_seconds
                 \<le> pk_time (peak_loop threshold min_gap_seconds [] (- min_gap_seconds) timeline ! j)
                   - pk_time (peak_loop threshold min_gap_seconds [] (- min_gap_seconds) timeline ! i)))"
proof (intro conjI)
  show "detect_volume_peaks a threshold min_gap_seconds = Inr peaks \<longrightarrow>
      (\<forall>p\<in>set peaks. threshold \<le> pk_volume p)
      \<and> (\<forall>i j. i < j \<and> j < length peaks \<longrightarrow>
             min_gap_seconds \<le> pk_time (peaks ! j) - pk_time (peaks ! i))"
  proof
    assume run: "detect_volume_peaks a threshold min_gap_seconds = Inr peaks"
    then obtain tl where tl: "get_volume_timeline a 1.0 = Inr tl"
      and peaks: "peaks = peak_loop threshold min_gap_seconds [] (- min_gap_seconds) tl"
      by (auto simp: detect_volume_peaks_def split: sum.splits)
    from tl have "sorted (map pt_time tl)" by (rule timeline_sorted)
    then have "0 \<le> min_gap_seconds \<or> sorted (map pt_time tl)" ..
    from peak_scan [OF this, of threshold] show
      "(\<forall>p\<in>set peaks. threshold \<le> pk_volume p)
      \<and> (\<forall>i j. i < j \<and> j < length peaks \<longrightarrow>
             min_gap_seconds \<le> pk_time (peaks ! j) - pk_time (peaks ! i))"
      unfolding peaks .
  qed
next
  show "0 < sample_rate a \<longrightarrow> (\<exists>found. detect_volume_peaks a threshold min_gap_seconds = Inr found)"
    by (simp add: detect_volume_peaks_def get_volume_timeline_def Let_def)
next
  show "0 \<le> min_gap_seconds \<or> sorted (map pt_time timeline) \<longrightarrow>
        (\<forall>p\<in>set (peak_loop threshold min_gap_seconds [] (- min_gap_seconds) timeline).
            threshold \<le> pk_volume p)
        \<and> (\<forall>i j. i < j
               \<and> j < length (peak_loop threshold min_gap_seconds [] (- min_gap_seconds) timeline) \<longrightarrow>
               min_gap_seconds
                 \<le> pk_time (peak_loop threshold min_gap_seconds [] (- min_gap_seconds) timeline ! j)
                   - pk_time (peak_loop threshold min_gap_seconds [] (- min_gap_seconds) timeline ! i))"
    using peak_scan [of min_gap_seconds timeline threshold] by blast
qed

theorem peaks_loud_and_apart_witness:
  "detect_volume_peaks \<lparr>sample_rate = 1, audio_data = [1, - 1, 1]\<rparr> (1 / 2) 2
     = Inr [\<lparr>pk_time = 0, pk_volume = 1 / 2, pk_type = ''high_volume_moment''\<rparr>,
            \<lparr>pk_time = 2, pk_volume = 1 / 2, pk_type = ''high_volume_moment''\<rparr>]
   \<and> 1 / 2 \<le> pk_volume \<lparr>pk_time = 2, pk_volume = 1 / 2, pk_type = ''high_volume_moment''\<rparr>
   \<and> 2 \<le> pk_time \<lparr>pk_time = 2, pk_volume = 1 / 2, pk_type = ''high_volume_moment''\<rparr>
           - pk_time \<lparr>pk_time = 0, pk_volume = 1 / 2, pk_type = ''high_volume_moment''\<rparr>
   \<and> sorted (map pt_time [\<lparr>pt_time = 5, pt_volume = 7 / 10\<rparr>, \<lparr>pt_time = 8, pt_volume = 8 / 10\<rparr>,
                           \<lparr>pt_time = 20, pt_volume = 65 / 100\<rparr>])
   \<and> peak_loop (6 / 10) 10 [] (- 10)
        [\<lparr>pt_time = 5, pt_volume = 7 / 10\<rparr>, \<lparr>pt_time = 8, pt_volume = 8 / 10\<rparr>,
         \<lparr>pt_time = 20, pt_volume = 65 / 100\<rparr>]
     = [\<lparr>pk_time = 5, pk_volume = 7 / 10, pk_type = ''high_volume_moment''\<rparr>,
        \<lparr>pk_time = 20, pk_volume = 65 / 100, pk_type = ''high_volume_moment''\<rparr>]
   \<and> 10 \<le> pk_time (peak_loop (6 / 10) 10 [] (- 10)
                       [\<lparr>pt_time = 5, pt_volume = 7 / 10\<rparr>, \<lparr>pt_time = 8, pt_volume = 8 / 10\<rparr>,
                        \<lparr>pt_time = 20, pt_volume = 65 / 100\<rparr>] ! 1)
            - pk_time (peak_loop (6 / 10) 10 [] (- 10)
                         [\<lparr>pt_time = 5, pt_volume = 7 / 10\<rparr>, \<lparr>pt_time = 8, pt_volume = 8 / 10\<rparr>,
                          \<lparr>pt_time = 20, pt_volume = 65 / 100\<rparr>] ! 0)"
proof -
  let ?a = "\<lparr>sample_rate = 1, audio_data = [1, - 1, 1]\<rparr>"
  let ?p0 = "\<lparr>pk_time = 0, pk_volume = 1 / 2, pk_type = ''high_volume_moment''\<rparr>"
  let ?p2 = "\<lparr>pk_time = 2, pk_volume = 1 / 2, pk_type = ''high_volume_moment''\<rparr>"
  let ?timeline = "[\<lparr>pt_time = 5, pt_volume = 7 / 10\<rparr>, \<lparr>pt_time = 8, pt_volume = 8 / 10\<rparr>,
                    \<lparr>pt_time = 20, pt_volume = 65 / 100\<rparr>]"
  let ?found = "peak_loop (6 / 10) 10 [] (- 10) ?timeline"
  have run: "detect_volume_peaks ?a (1 / 2) 2 = Inr [?p0, ?p2]"
    by (simp add: detect_volume_peaks_def get_volume_timeline_def calculate_rms_def py_range_def
          py_round_def round_half_even_def upt_rec)
  have chron: "sorted (map pt_time ?timeline)"
    by simp
  have scan: "?found
     = [\<lparr>pk_time = 5, pk_volume = 7 / 10, pk_type = ''high_volume_moment''\<rparr>,
        \<lparr>pk_time = 20, pk_volume = 65 / 100, pk_type = ''high_volume_moment''\<rparr>]"
    by simp
  from peaks_loud_and_apart [of ?a "1 / 2" 2 "[?p0, ?p2]" ?timeline] run
  have loud: "\<forall>p\<in>set [?p0, ?p2]. 1 / 2 \<le> pk_volume p"
    and gap: "\<forall>i j. i < j \<and> j < length [?p0, ?p2] \<longrightarrow>
                2 \<le> pk_time ([?p0, ?p2] ! j) - pk_time ([?p0, ?p2] ! i)"
    by blast+
  from loud have l2: "1 / 2 \<le> pk_volume ?p2"
    by simp
  from gap [rule_format, of 0 1] have g02: "2 \<le> pk_time ?p2 - pk_time ?p0"
    by simp
  from peaks_loud_and_apart [of ?a "6 / 10" 10 "[?p0, ?p2]" ?timeline] chron
  have "\<forall>i j. i < j \<and> j < length ?found \<longrightarrow> 10 \<le> pk_time (?found ! j) - pk_time (?found ! i)"
    by blast
  from this [rule_format, of 0 1] have g520: "10 \<le> pk_time (?found ! 1) - pk_time (?found ! 0)"
    by simp
  from run l2 g02 chron scan g520 show ?thesis
    by (intro conjI)
qed

section \<open>Fusing text and volume\<close>

lemma py_round_idem: "py_round (py_round x 2) 2 = py_round x 2"
proof -
  have "py_round x 2 * 10 ^ 2 = of_int (round_half_even (x * 10 ^ 2))"
    by (simp add: py_round_def)
  then have "round_half_even (py_round x 2 * 10 ^ 2) = round_half_even (x * 10 ^ 2)"
    by (simp only: round_half_even_of_int)
  then show ?thesis
    unfolding py_round_def [of "py_round x 2" 2] by (simp add: py_round_def)
qed

lemma fused_as_specified:
  assumes "volume_score \<le> 1"
  shows "calculate_intensity_with_volume nlp text volume_score
         = spec_fused_intensity (calculate_intensity nlp text) volume_score"
proof -
  have "calculate_intensity nlp text \<le> 1"
    using calculate_intensity_unit [of nlp "text"] by simp
  with assms have "calculate_intensity nlp text * 0.6 + volume_score * 0.4 \<le> 1"
    by simp
  then show ?thesis
    by (simp add: calculate_intensity_with_volume_def spec_fused_intensity_def Let_def min_def)
qed

lemma build_volume_lookup_le:
  assumes "\<forall>k v. m k = Some v \<longrightarrow> v \<le> 1"
    and "\<forall>vs\<in>set vols. \<forall>v. vs_volume_score vs = Some v \<longrightarrow> v \<le> 1"
  shows "build_volume_lookup m vols k = Some v \<Longrightarrow> v \<le> 1"
  using assms
proof (induction vols arbitrary: m)
  case Nil
  then show ?case by simp
next
  case (Cons vs vols)
  let ?m = "m(py_round (case vs_start vs of None \<Rightarrow> 0 | Some s \<Rightarrow> s) 1
               \<mapsto> (case vs_volume_score vs of None \<Rightarrow> 0 | Some v \<Rightarrow> v))"
  have "\<forall>k v. ?m k = Some v \<longrightarrow> v \<le> 1"
    using Cons.prems(2,3) by (auto split: option.splits)
  moreover have "\<forall>vs\<in>set vols. \<forall>v. vs_volume_score vs = Some v \<longrightarrow> v \<le> 1"
    using Cons.prems(3) by simp
  moreover have "build_volume_lookup ?m vols k = Some v"
    using Cons.prems(1) by (simp add: Let_def)
  ultimately show ?case by (rule Cons.IH [rotated])
qed

lemma looked_up_volume_le:
  assumes "\<forall>vs\<in>set vols. \<forall>v. vs_volume_score vs = Some v \<longrightarrow> v \<le> 1"
  shows "looked_up_volume vols seg \<le> 1"
proof (cases "build_volume_lookup Map.empty vols (py_round (segment_start seg) 1)")
  case None
  then show ?thesis by (simp add: looked_up_volume_def get_or_def)
next
  case (Some v)
  have "\<forall>k v. (Map.empty :: real \<rightharpoonup> real) k = Some v \<longrightarrow> v \<le> 1" by simp
  from build_volume_lookup_le [OF this assms Some] Some show ?thesis
    by (simp add: looked_up_volume_def get_or_def)
qed

lemma analyze_segment_loaded:
  "\<exists>r. analyze_segment (Some annotate) volume_lookup seg = Inr r
       \<and> ir_intensity r = chosen_intensity annotate volume_lookup seg"
  by (simp add: analyze_segment_def analyze_with_spacy_def chosen_intensity_def
        segment_text_def segment_start_def Let_def)

lemma analyze_loop_loaded:
  "\<exists>rs. analyze_loop (Some annotate) volume_lookup results segs = Inr (results @ rs)
        \<and> length rs = length segs
        \<and> (\<forall>i<length segs. ir_intensity (rs ! i) = chosen_intensity annotate volume_lookup (segs ! i))"
proof (induction segs arbitrary: results)
  case Nil
  show ?case by simp
next
  case (Cons seg segs)
  from analyze_segment_loaded [of annotate volume_lookup seg]
  obtain r where r: "analyze_segment (Some annotate) volume_lookup seg = Inr r"
    and ri: "ir_intensity r = chosen_intensity annotate volume_lookup seg"
    by blast
  from Cons.IH [of "results @ [r]"]
  obtain rs where run: "analyze_loop (Some annotate) volume_lookup (results @ [r]) segs
                        = Inr ((results @ [r]) @ rs)"
    and len: "length rs = length segs"
    and each: "\<forall>i<length segs. ir_intensity (rs ! i)
                 = chosen_intensity annotate volume_lookup (segs ! i)"
    by blast
  have "analyze_loop (Some annotate) volume_lookup results (seg # segs) = Inr (results @ (r # rs))"
    using r run by simp
  moreover have "length (r # rs) = length (seg # segs)"
    using len by simp
  moreover have "\<forall>i<length (seg # segs). ir_intensity ((r # rs) ! i)
                   = chosen_intensity annotate volume_lookup ((seg # segs) ! i)"
    using ri each by (auto simp: nth_Cons split: nat.splits)
  ultimately show ?case by blast
qed

text \<open>
  C8. With the model loaded and every volume score at most 1, \<open>analyze_sentiment\<close>
  returns one record per segment. When the volume looked up under the segment's start
  time rounded to one decimal is positive, the record's intensity is the fused intensity
  of the specification (0.6 of the text intensity plus 0.4 of the volume, plus 0.1 when
  both exceed 0.5, clamped at 1.0, rounded to two decimals); when there is no entry or
  the entry is not positive, it is the text-only intensity.
\<close>

theorem fused_or_text_only:
  assumes "\<forall>vs\<in>set segments_with_volume. \<forall>v. vs_volume_score vs = Some v \<longrightarrow> v \<le> 1"
  shows "\<exists>records. analyze_sentiment (Some annotate) segments segments_with_volume = Inr records
     \<and> length records = length segments
     \<and> (\<forall>i<length segments.
           ir_intensity (records ! i)
           = (if 0 < looked_up_volume segments_with_volume (segments ! i)
              then spec_fused_intensity
                     (calculate_intensity (Some annotate) (segment_text (segments ! i)))
                     (looked_up_volume segments_with_volume (segments ! i))
              else calculate_intensity (Some annotate) (segment_text (segments ! i))))"
proof -
  let ?lookup = "build_volume_lookup Map.empty segments_with_volume"
  from analyze_loop_loaded [of annotate ?lookup "[]" segments]
  obtain rs where run: "analyze_loop (Some annotate) ?lookup [] segments = Inr rs"
    and len: "length rs = length segments"
    and each: "\<forall>i<length segments. ir_intensity (rs ! i)
                 = chosen_intensity annotate ?lookup (segments ! i)"
    by auto
  have "chosen_intensity annotate ?lookup seg
        = (if 0 < looked_up_volume segments_with_volume seg
           then spec_fused_intensity (calculate_intensity (Some annotate) (segment_text seg))
                  (looked_up_volume segments_with_volume seg)
           else calculate_intensity (Some annotate) (segment_text seg))" for seg
    using looked_up_volume_le [OF assms, of seg]
    by (simp add: chosen_intensity_def Let_def fused_as_specified looked_up_volume_def)
  with run len each show ?thesis
    by (simp add: analyze_sentiment_def)
qed

theorem fused_or_text_only_witness:
  "\<exists>records.
      analyze_sentiment (Some sample_annotation)
        [\<lparr>seg_start = Some 3, seg_end = Some 5, seg_text = Some ''Oh!''\<rparr>,
         \<lparr>seg_start = Some 7, seg_end = Some 9, seg_text = Some ''Oh!''\<rparr>]
        [\<lparr>vs_start = Some 3, vs_volume_score = Some (9 / 10)\<rparr>] = Inr records
      \<and> ir_intensity (records ! 0) = 77 / 100
      \<and> ir_intensity (records ! 1) = 51 / 100"
proof -
  let ?a = "\<lparr>seg_start = Some 3, seg_end = Some 5, seg_text = Some ''Oh!''\<rparr>"
  let ?b = "\<lparr>seg_start = Some 7, seg_end = Some 9, seg_text = Some ''Oh!''\<rparr>"
  let ?vols = "[\<lparr>vs_start = Some 3, vs_volume_score = Some (9 / 10)\<rparr>]"
  have bounded: "\<forall>vs\<in>set ?vols. \<forall>v. vs_volume_score vs = Some v \<longrightarrow> v \<le> 1"
    by simp
  from fused_or_text_only [OF bounded, of sample_annotation "[?a, ?b]"]
  obtain records where
    run: "analyze_sentiment (Some sample_annotation) [?a, ?b] ?vols = Inr records"
    and each: "\<forall>i<length [?a, ?b].
           ir_intensity (records ! i)
           = (if 0 < looked_up_volume ?vols ([?a, ?b] ! i)
              then spec_fused_intensity
                     (calculate_intensity (Some sample_annotation) (segment_text ([?a, ?b] ! i)))
                     (looked_up_volume ?vols ([?a, ?b] ! i))
              else calculate_intensity (Some sample_annotation) (segment_text ([?a, ?b] ! i)))"
    by blast
  have va: "looked_up_volume ?vols ?a = 9 / 10"
    by code_simp
  have vb: "looked_up_volume ?vols ?b = 0"
    by code_simp
  have ta: "calculate_intensity (Some sample_annotation) (segment_text ?a) = 51 / 100"
    by code_simp
  have tb: "calculate_intensity (Some sample_annotation) (segment_text ?b) = 51 / 100"
    by code_simp
  have fused: "spec_fused_intensity (51 / 100) (9 / 10) = 77 / 100"
    by code_simp
  from each have "ir_intensity (records ! 0)
      = (if 0 < looked_up_volume ?vols ?a
         then spec_fused_intensity
                (calculate_intensity (Some sample_annotation) (segment_text ?a))
                (looked_up_volume ?vols ?a)
         else calculate_intensity (Some sample_annotation) (segment_text ?a))"
    by simp
  then have first: "ir_intensity (records ! 0) = 77 / 100"
    by (simp only: va ta fused) simp
  from each have "ir_intensity (records ! 1)
      = (if 0 < looked_up_volume ?vols ?b
         then spec_fused_intensity
                (calculate_intensity (Some sample_annotation) (segment_text ?b))
                (looked_up_volume ?vols ?b)
         else calculate_intensity (Some sample_annotation) (segment_text ?b))"
    by simp
  then have second: "ir_intensity (records ! 1) = 51 / 100"
    by (simp only: vb tb) simp
  from run first second show ?thesis
    by (intro exI [of _ records] conjI)
qed

lemma sample_intensity:
  "calculate_intensity (Some sample_annotation) ''And it is a goal for us'' = 4 / 7"
  by code_simp

lemma unmatched_or_rounded:
  "\<exists>records. analyze_sentiment (Some annotate) segments segments_with_volume = Inr records
      \<and> length records = length segments
      \<and> (\<forall>i<length segments.
            (if 0 < looked_up_volume segments_with_volume (segments ! i)
             then two_decimal (ir_intensity (records ! i))
             else ir_intensity (records ! i)
                  = calculate_intensity (Some annotate) (segment_text (segments ! i))))"
proof -
  let ?lookup = "build_volume_lookup Map.empty segments_with_volume"
  from analyze_loop_loaded [of annotate ?lookup "[]" segments]
  obtain rs where run: "analyze_loop (Some annotate) ?lookup [] segments = Inr rs"
    and len: "length rs = length segments"
    and each: "\<forall>i<length segments. ir_intensity (rs ! i)
                 = chosen_intensity annotate ?lookup (segments ! i)"
    by auto
  have "if 0 < looked_up_volume segments_with_volume seg
        then two_decimal (chosen_intensity annotate ?lookup seg)
        else chosen_intensity annotate ?lookup seg
             = calculate_intensity (Some annotate) (segment_text seg)" for seg
    by (simp add: chosen_intensity_def Let_def looked_up_volume_def two_decimal_def
          calculate_intensity_with_volume_def py_round_idem)
  with run len each show ?thesis
    by (simp add: analyze_sentiment_def)
qed

text \<open>
  C10. With the model loaded, the intensity of a segment with a positive volume match has
  at most two decimals, and the intensity of every other segment is the value of
  \<open>calculate_intensity\<close> as it is, not rounded: for the segment
  \<open>And it is a goal for us\<close> without a volume it is 4/7, which has more than two
  decimals.
\<close>

theorem text_only_intensity_unrounded:
  "(\<exists>records. analyze_sentiment (Some annotate) segments segments_with_volume = Inr records
      \<and> length records = length segments
      \<and> (\<forall>i<length segments.
            (if 0 < looked_up_volume segments_with_volume (segments ! i)
             then two_decimal (ir_intensity (records ! i))
             else ir_intensity (records ! i)
                  = calculate_intensity (Some annotate) (segment_text (segments ! i)))))
   \<and> (\<exists>records. analyze_sentiment (Some sample_annotation)
                   [\<lparr>seg_start = Some 0, seg_end = Some 5,
                     seg_text = Some ''And it is a goal for us''\<rparr>] []
                 = Inr records
               \<and> map ir_intensity records = [4 / 7])
   \<and> \<not> two_decimal (4 / 7)"
proof (intro conjI)
  show "\<exists>records. analyze_sentiment (Some annotate) segments segments_with_volume = Inr records
      \<and> length records = length segments
      \<and> (\<forall>i<length segments.
            (if 0 < looked_up_volume segments_with_volume (segments ! i)
             then two_decimal (ir_intensity (records ! i))
             else ir_intensity (records ! i)
                  = calculate_intensity (Some annotate) (segment_text (segments ! i))))"
    by (rule unmatched_or_rounded)
next
  let ?seg = "\<lparr>seg_start = Some 0, seg_end = Some 5, seg_text = Some ''And it is a goal for us''\<rparr>"
  from unmatched_or_rounded [of sample_annotation "[?seg]" "[]"]
  obtain records where run: "analyze_sentiment (Some sample_annotation) [?seg] [] = Inr records"
    and len: "length records = length [?seg]"
    and each: "\<forall>i<length [?seg].
            (if 0 < looked_up_volume [] ([?seg] ! i)
             then two_decimal (ir_intensity (records ! i))
             else ir_intensity (records ! i)
                  = calculate_intensity (Some sample_annotation) (segment_text ([?seg] ! i)))"
    by blast
  have "looked_up_volume [] ?seg = 0"
    by (simp add: looked_up_volume_def get_or_def)
  with each have "ir_intensity (records ! 0)
                  = calculate_intensity (Some sample_annotation) (segment_text ?seg)"
    by simp
  then have val: "ir_intensity (records ! 0) = 4 / 7"
    by (simp add: segment_text_def sample_intensity)
  from len obtain r where one: "records = [r]"
    by (cases records) auto
  with val have "map ir_intensity records = [4 / 7]"
    by simp
  with run show "\<exists>records. analyze_sentiment (Some sample_annotation) [?seg] [] = Inr records
               \<and> map ir_intensity records = [4 / 7]"
    by (intro exI [of _ records] conjI)
next
  show "\<not> two_decimal (4 / 7)"
    by code_simp
qed

theorem text_only_intensity_unrounded_witness:
  "\<exists>records.
      analyze_sentiment (Some sample_annotation)
        [\<lparr>seg_start = Some 1, seg_end = Some 2, seg_text = Some ''And it is a goal for us''\<rparr>]
        [\<lparr>vs_start = Some 4, vs_volume_score = Some (3 / 4)\<rparr>] = Inr records
      \<and> ir_intensity (records ! 0) = 4 / 7
      \<and> \<not> two_decimal (4 / 7)"
proof -
  let ?a = "\<lparr>seg_start = Some 1, seg_end = Some 2, seg_text = Some ''And it is a goal for us''\<rparr>"
  let ?vols = "[\<lparr>vs_start = Some 4, vs_volume_score = Some (3 / 4)\<rparr>]"
  note claim = text_only_intensity_unrounded [of sample_annotation "[?a]" ?vols]
  from claim obtain records where
    run: "analyze_sentiment (Some sample_annotation) [?a] ?vols = Inr records"
    and each: "\<forall>i<length [?a].
            (if 0 < looked_up_volume ?vols ([?a] ! i)
             then two_decimal (ir_intensity (records ! i))
             else ir_intensity (records ! i)
                  = calculate_intensity (Some sample_annotation) (segment_text ([?a] ! i)))"
    by blast
  from claim have odd: "\<not> two_decimal (4 / 7)"
    by blast
  have va: "looked_up_volume ?vols ?a = 0"
    by code_simp
  have tx: "segment_text ?a = ''And it is a goal for us''"
    by (simp add: segment_text_def)
  from each have "if 0 < looked_up_volume ?vols ?a
             then two_decimal (ir_intensity (records ! 0))
             else ir_intensity (records ! 0)
                  = calculate_intensity (Some sample_annotation) (segment_text ?a)"
    by simp
  then have raw: "ir_intensity (records ! 0) = 4 / 7"
    by (simp only: va tx sample_intensity)
  from run raw odd show ?thesis
    by (intro exI [of _ records] conjI)
qed

end
